theory Spec2Isabelle
  imports Main "HOL-Library.Char_ord" "HOL-Library.List_Lexorder"
begin

section \<open>Values of the request body\<close>

text \<open>
  The request body is parsed JSON.  The handlers test its fields with \<^verbatim>\<open>!email\<close> and
  \<^verbatim>\<open>typeof email !== 'string'\<close>, so the scalar JSON values are kept apart.  (Numbers are
  integers here; a field holding an object or an array is not modelled.)
\<close>

datatype jsval = JUndefined | JNull | JBool bool | JNum int | JStr string

fun truthy :: "jsval \<Rightarrow> bool" where
  "truthy JUndefined = False"
| "truthy JNull = False"
| "truthy (JBool b) = b"
| "truthy (JNum n) = (n \<noteq> 0)"
| "truthy (JStr s) = (s \<noteq> [])"

fun typeof :: "jsval \<Rightarrow> string" where
  "typeof JUndefined = ''undefined''"
| "typeof JNull = ''object''"
| "typeof (JBool b) = ''boolean''"
| "typeof (JNum n) = ''number''"
| "typeof (JStr s) = ''string''"

text \<open>Letters outside ASCII in the messages of the source, as their UTF-8 bytes.\<close>

abbreviation a_acute :: string where "a_acute \<equiv> [CHR 0xC3, CHR 0xA1]"
abbreviation i_acute :: string where "i_acute \<equiv> [CHR 0xC3, CHR 0xAD]"
abbreviation o_acute :: string where "o_acute \<equiv> [CHR 0xC3, CHR 0xB3]"
abbreviation n_tilde :: string where "n_tilde \<equiv> [CHR 0xC3, CHR 0xB1]"
abbreviation check_mark :: string where "check_mark \<equiv> [CHR 0xE2, CHR 0x9C, CHR 0x85]"
abbreviation cross_mark :: string where "cross_mark \<equiv> [CHR 0xE2, CHR 0x9D, CHR 0x8C]"

section \<open>The user table\<close>

text \<open>
  \<^verbatim>\<open>const users = new Map()\<close> maps the email of the request to a user object
  \<^verbatim>\<open>{ id, email, devices, currentChallenge }\<close>; a device is
  \<^verbatim>\<open>{ credentialID, credentialPublicKey, counter }\<close>.  \<^verbatim>\<open>delete user.currentChallenge\<close>
  leaves the field undefined, which is \<open>None\<close>.
\<close>

record device =
  credentialID :: string
  credentialPublicKey :: string
  counter :: nat

record user =
  user_id :: string
  email :: jsval
  devices :: "device list"
  currentChallenge :: "string option"

type_synonym users = "jsval \<rightharpoonup> user"

text \<open>The credentials stored for an identity: none when the identity is unknown.\<close>

definition credentials_of :: "users \<Rightarrow> jsval \<Rightarrow> device list" where
  "credentials_of us e = (case us e of None \<Rightarrow> [] | Some u \<Rightarrow> devices u)"

section \<open>Requests and replies\<close>

text \<open>
  \<open>body_response = None\<close> is a missing (or falsy) \<^verbatim>\<open>response\<close> field; \<open>Some r\<close> is the
  credential object the browser sent.  The handlers read \<^verbatim>\<open>response.id\<close> only, a JSON value
  like any other field of the body; the client data and the authenticator data are the
  members the verifier decodes, and are opaque to the handlers.
\<close>

record response =
  response_id :: jsval
  clientDataJSON :: string
  authenticatorData :: string

record body =
  body_email :: jsval
  body_response :: "response option"

record options =
  challenge :: string
  options_rest :: string

datatype payload =
    Json_error string
  | Json_verified
  | Json_verified_user jsval
  | Json_options options
  | Json_health string

record reply =
  status :: nat
  json :: payload

definition sendError :: "nat \<Rightarrow> string \<Rightarrow> reply" where
  "sendError st message = \<lparr>status = st, json = Json_error message\<rparr>"

text \<open>\<^verbatim>\<open>res.json(x)\<close> without \<^verbatim>\<open>res.status\<close> answers 200.\<close>

definition res_json :: "payload \<Rightarrow> reply" where
  "res_json p = \<lparr>status = 200, json = p\<rparr>"

section \<open>The WebAuthn library, as a parameter\<close>

text \<open>
  \<^verbatim>\<open>@simplewebauthn/server\<close> and \<^verbatim>\<open>uuid\<close> are not code of this repository.  Each call the
  handlers make is a field of \<open>lib\<close>: a function from the arguments the handler passes to
  what the call does, which is to throw (with the message of the exception) or to return.
  The two base64url helpers that the second server of \<^verbatim>\<open>part_004\<close> calls are fields as
  well.
\<close>

datatype 'a outcome = Throws string | Returns 'a

record 'i verification =
  verified :: bool
  info :: "'i option"

record authenticationInfo =
  newCounter :: nat

record reg_opts =
  rpName :: string
  rpID :: string
  userID :: string
  userName :: jsval
  userDisplayName :: "jsval option"
  timeout :: nat
  attestationType :: string
  excludeCredentials :: "string list option"
  authenticatorSelection :: "(string \<times> jsval) list"
  supportedAlgorithmIDs :: "int list option"

record auth_opts =
  auth_timeout :: nat
  userVerification :: string
  allowCredentials :: "(string \<times> string list) list"
  auth_rpID :: string

record verify_opts =
  response :: response
  expectedChallenge :: string
  expectedOrigin :: string
  expectedRPID :: string
  requireUserVerification :: bool

record auth_verify_opts = verify_opts +
  authenticator :: device

record lib =
  uuidv4 :: string
  toISOString_now :: string
  generateRegistrationOptions :: "reg_opts \<Rightarrow> options outcome"
  generateAuthenticationOptions :: "auth_opts \<Rightarrow> options outcome"
  verifyRegistrationResponse :: "verify_opts \<Rightarrow> device verification outcome"
  verifyAuthenticationResponse :: "auth_verify_opts \<Rightarrow> authenticationInfo verification outcome"
  isoBase64URL_fromBuffer :: "string \<Rightarrow> string outcome"
  isoBase64URL_toBuffer :: "string \<Rightarrow> string outcome"

text \<open>
  The generators are taken to return the options themselves, as \<^verbatim>\<open>server.js\<close> and
  \<^verbatim>\<open>part_002\<close> use them (without \<^verbatim>\<open>await\<close>); the second server of \<^verbatim>\<open>part_004\<close> awaits them.
\<close>

text \<open>
  \<^verbatim>\<open>isoHelpers.fromUTF8String\<close> encodes the user id; on \<open>string\<close> it is the identity.
\<close>

definition fromUTF8String :: "string \<Rightarrow> string" where
  "fromUTF8String s = s"

subsection \<open>Two calls that raise\<close>

text \<open>
  \<^verbatim>\<open>isoUint8Array.toBuffer(x)\<close>, in the push of \<^verbatim>\<open>/verify-registration\<close> of \<^verbatim>\<open>server.js\<close>,
  \<^verbatim>\<open>part_002\<close>, \<^verbatim>\<open>part_003\<close> and the first server of \<^verbatim>\<open>part_004\<close>.  The first three take
  \<^verbatim>\<open>isoUint8Array\<close> from the root of \<^verbatim>\<open>@simplewebauthn/server\<close>, which does not export it, so
  the name is undefined; the fourth takes it from the helpers, whose \<^verbatim>\<open>isoUint8Array\<close> has no
  \<^verbatim>\<open>toBuffer\<close>.  Either way the call raises a \<^verbatim>\<open>TypeError\<close> while the argument of the push is
  built, before anything is stored.
\<close>

definition toBuffer :: "string \<Rightarrow> string outcome" where
  "toBuffer x = Throws ''isoUint8Array.toBuffer is not a function''"

text \<open>
  \<^verbatim>\<open>Buffer.compare(d.credentialID, response.id)\<close>, in the \<^verbatim>\<open>find\<close> of \<^verbatim>\<open>/verify-authentication\<close>
  of the same servers.  Node raises a \<^verbatim>\<open>TypeError\<close> unless both arguments are a \<^verbatim>\<open>Buffer\<close>
  or a \<^verbatim>\<open>Uint8Array\<close>, and \<^verbatim>\<open>response.id\<close> is a value parsed from JSON, which is neither.
\<close>

definition Buffer_compare :: "string \<Rightarrow> jsval \<Rightarrow> int outcome" where
  "Buffer_compare buf v =
     Throws ''The buf2 argument must be an instance of Buffer or Uint8Array''"

text \<open>
  \<^verbatim>\<open>user.devices.find(d => Buffer.compare(d.credentialID, response.id) === 0)\<close>: the callback
  runs on the devices in order, and what it raises ends the search.
\<close>

fun find_device :: "device list \<Rightarrow> jsval \<Rightarrow> device option outcome" where
  "find_device [] rid = Returns None"
| "find_device (d # ds) rid =
     (case Buffer_compare (credentialID d) rid of
        Throws msg \<Rightarrow> Throws msg
      | Returns n \<Rightarrow> if n = 0 then Returns (Some d) else find_device ds rid)"

text \<open>
  The two deployments, \<^verbatim>\<open>axltest.dev\<close> (\<^verbatim>\<open>server.js\<close>) and \<^verbatim>\<open>axltest.lat\<close> (\<^verbatim>\<open>part_002\<close>): the
  expected origin and relying-party id that the two verify handlers pass to the verifier.
\<close>

record site =
  site_rpID :: string
  site_origin :: string

definition axltest_dev :: site where
  "axltest_dev = \<lparr>site_rpID = ''axltest.dev'', site_origin = ''https://axltest.dev''\<rparr>"

definition axltest_lat :: site where
  "axltest_lat = \<lparr>site_rpID = ''axltest.lat'', site_origin = ''https://axltest.lat''\<rparr>"

section \<open>The handlers\<close>

text \<open>
  A handler takes the library, the user table and the request body and gives the reply and
  the user table it leaves.  The \<^verbatim>\<open>try { ... } catch (err)\<close> around each body is the
  \<open>Throws\<close> branch of each library call.  A handler runs to its end before the next request
  is looked at (the interleaving of two requests at an \<^verbatim>\<open>await\<close> is not modelled).
\<close>

subsection \<open>\<^verbatim>\<open>POST /generate-registration-options\<close>\<close>

text \<open>
  \<^verbatim>\<open>src/unnamed/part_002\<close> (and the first server of \<^verbatim>\<open>part_004\<close>): a known user keeps its
  devices and only gets the new challenge.
\<close>

definition generate_registration_options :: "lib \<Rightarrow> users \<Rightarrow> body \<Rightarrow> reply \<times> users" where
  "generate_registration_options L us b =
    (let email = body_email b in
     if \<not> truthy email \<or> typeof email \<noteq> ''string''
     then (sendError 400 (''Email v'' @ a_acute @ ''lido es requerido''), us)
     else
       let userId = uuidv4 L in
       case generateRegistrationOptions L
              \<lparr>rpName = ''Mi App Web'', rpID = ''axltest.lat'',
               userID = fromUTF8String userId, userName = email, userDisplayName = None,
               timeout = 60000, attestationType = ''none'',
               excludeCredentials =
                 Some (case us email of
                         Some u \<Rightarrow> map credentialID (devices u)
                       | None \<Rightarrow> []),
               authenticatorSelection =
                 [(''authenticatorAttachment'', JStr ''platform''),
                  (''userVerification'', JStr ''required''),
                  (''requireResidentKey'', JBool True)],
               supportedAlgorithmIDs = Some [- 7, - 257]\<rparr> of
         Throws msg \<Rightarrow> (sendError 500 ''Error interno al generar opciones'', us)
       | Returns opts \<Rightarrow>
           (case us email of
              None \<Rightarrow>
                (res_json (Json_options opts),
                 us(email \<mapsto> \<lparr>user_id = userId, email = email, devices = [],
                                currentChallenge = Some (challenge opts)\<rparr>))
            | Some u \<Rightarrow>
                (res_json (Json_options opts),
                 us(email \<mapsto> u\<lparr>currentChallenge := Some (challenge opts)\<rparr>))))"

text \<open>
  \<^verbatim>\<open>src/backend/server.js\<close> (and \<^verbatim>\<open>part_001\<close>, \<^verbatim>\<open>part_003\<close>):
  \<^verbatim>\<open>users.set(email, { id, email, devices: [], currentChallenge })\<close> whether or not the email
  is known.
\<close>

definition generate_registration_options_server_js :: "lib \<Rightarrow> users \<Rightarrow> body \<Rightarrow> reply \<times> users" where
  "generate_registration_options_server_js L us b =
    (let email = body_email b in
     if \<not> truthy email
     then (sendError 400 ''Email requerido'', us)
     else
       let userId = uuidv4 L in
       case generateRegistrationOptions L
              \<lparr>rpName = ''AxlTest App'', rpID = ''axltest.dev'',
               userID = fromUTF8String userId, userName = email, userDisplayName = Some email,
               timeout = 60000, attestationType = ''none'',
               excludeCredentials = None,
               authenticatorSelection =
                 [(''userVerification'', JStr ''preferred''),
                  (''residentKey'', JStr ''preferred'')],
               supportedAlgorithmIDs = Some [- 7, - 257]\<rparr> of
         Throws msg \<Rightarrow> (sendError 500 (''Error interno: '' @ msg), us)
       | Returns opts \<Rightarrow>
           (res_json (Json_options opts),
            us(email \<mapsto> \<lparr>user_id = userId, email = email, devices = [],
                           currentChallenge = Some (challenge opts)\<rparr>)))"

text \<open>
  The second server of \<^verbatim>\<open>src/unnamed/part_004\<close>: the same \<^verbatim>\<open>users.set\<close>, with the user id
  passed as it is and fewer options.
\<close>

definition generate_registration_options_part_004 :: "lib \<Rightarrow> users \<Rightarrow> body \<Rightarrow> reply \<times> users" where
  "generate_registration_options_part_004 L us b =
    (let email = body_email b in
     if \<not> truthy email
     then (sendError 400 ''Email requerido'', us)
     else
       let userId = uuidv4 L in
       case generateRegistrationOptions L
              \<lparr>rpName = ''AxlTest App'', rpID = ''axltest.dev'',
               userID = userId, userName = email, userDisplayName = None,
               timeout = 60000, attestationType = ''none'',
               excludeCredentials = None,
               authenticatorSelection =
                 [(''userVerification'', JStr ''preferred''),
                  (''requireResidentKey'', JBool False)],
               supportedAlgorithmIDs = None\<rparr> of
         Throws msg \<Rightarrow> (sendError 500 (''Error interno: '' @ msg), us)
       | Returns opts \<Rightarrow>
           (res_json (Json_options opts),
            us(email \<mapsto> \<lparr>user_id = userId, email = email, devices = [],
                           currentChallenge = Some (challenge opts)\<rparr>)))"

subsection \<open>\<^verbatim>\<open>POST /verify-registration\<close>\<close>

text \<open>
  The same text in \<^verbatim>\<open>server.js\<close> and \<^verbatim>\<open>part_002\<close> but for the origin and the relying-party
  id, which are the \<open>site\<close>.  \<^verbatim>\<open>!expectedChallenge\<close> holds for an undefined field and for the
  empty string.  The two \<^verbatim>\<open>toBuffer\<close> calls stand in the argument of \<^verbatim>\<open>push\<close>, so they run
  before it.
\<close>

definition verify_registration :: "site \<Rightarrow> lib \<Rightarrow> users \<Rightarrow> body \<Rightarrow> reply \<times> users" where
  "verify_registration S L us b =
    (let email = body_email b in
     case (if truthy email then body_response b else None) of
       None \<Rightarrow> (sendError 400 ''Faltan datos'', us)
     | Some resp \<Rightarrow>
     (case us email of
       None \<Rightarrow> (sendError 404 ''Usuario no encontrado'', us)
     | Some u \<Rightarrow>
     (case (case currentChallenge u of None \<Rightarrow> None
            | Some c \<Rightarrow> if c = [] then None else Some c) of
       None \<Rightarrow> (sendError 400 (''No hay desaf'' @ i_acute @ ''o''), us)
     | Some expected \<Rightarrow>
     (case verifyRegistrationResponse L
             \<lparr>response = resp, expectedChallenge = expected,
              expectedOrigin = site_origin S, expectedRPID = site_rpID S,
              requireUserVerification = True\<rparr> of
       Throws msg \<Rightarrow> (sendError 500 ''Error al verificar registro'', us)
     | Returns verification \<Rightarrow>
         (case (if verified verification then info verification else None) of
            Some registrationInfo \<Rightarrow>
              (case toBuffer (credentialID registrationInfo) of
                 Throws msg \<Rightarrow> (sendError 500 ''Error al verificar registro'', us)
               | Returns cid \<Rightarrow>
              (case toBuffer (credentialPublicKey registrationInfo) of
                 Throws msg \<Rightarrow> (sendError 500 ''Error al verificar registro'', us)
               | Returns pk \<Rightarrow>
                   (res_json Json_verified,
                    us(email \<mapsto> u\<lparr>devices := devices u @
                         [\<lparr>credentialID = cid, credentialPublicKey = pk,
                           counter = counter registrationInfo\<rparr>],
                       currentChallenge := None\<rparr>))))
          | None \<Rightarrow> (sendError 400 (''Verificaci'' @ o_acute @ ''n fallida''), us))))))"

text \<open>
  The second server of \<^verbatim>\<open>src/unnamed/part_004\<close>: the id is stored as base64url text made by
  \<^verbatim>\<open>isoBase64URL.fromBuffer\<close>, the public key as the verifier gave it.
\<close>

definition verify_registration_part_004 :: "lib \<Rightarrow> users \<Rightarrow> body \<Rightarrow> reply \<times> users" where
  "verify_registration_part_004 L us b =
    (let email = body_email b in
     case (if truthy email then body_response b else None) of
       None \<Rightarrow> (sendError 400 ''Faltan datos'', us)
     | Some resp \<Rightarrow>
     (case us email of
       None \<Rightarrow> (sendError 404 ''Usuario no encontrado'', us)
     | Some u \<Rightarrow>
     (case (case currentChallenge u of None \<Rightarrow> None
            | Some c \<Rightarrow> if c = [] then None else Some c) of
       None \<Rightarrow> (sendError 400 (''No hay desaf'' @ i_acute @ ''o''), us)
     | Some expected \<Rightarrow>
     (case verifyRegistrationResponse L
             \<lparr>response = resp, expectedChallenge = expected,
              expectedOrigin = ''https://axltest.dev'', expectedRPID = ''axltest.dev'',
              requireUserVerification = True\<rparr> of
       Throws msg \<Rightarrow> (sendError 500 ''Error al verificar registro'', us)
     | Returns verification \<Rightarrow>
         (case (if verified verification then info verification else None) of
            Some registrationInfo \<Rightarrow>
              (case isoBase64URL_fromBuffer L (credentialID registrationInfo) of
                 Throws msg \<Rightarrow> (sendError 500 ''Error al verificar registro'', us)
               | Returns cid \<Rightarrow>
                   (res_json Json_verified,
                    us(email \<mapsto> u\<lparr>devices := devices u @
                         [\<lparr>credentialID = cid,
                           credentialPublicKey = credentialPublicKey registrationInfo,
                           counter = counter registrationInfo\<rparr>],
                       currentChallenge := None\<rparr>)))
          | None \<Rightarrow> (sendError 400 (''Verificaci'' @ o_acute @ ''n fallida''), us))))))"

subsection \<open>\<^verbatim>\<open>POST /generate-authentication-options\<close>\<close>

text \<open>\<^verbatim>\<open>src/unnamed/part_002\<close>: one test and one message for both absences.\<close>

definition generate_authentication_options :: "lib \<Rightarrow> users \<Rightarrow> body \<Rightarrow> reply \<times> users" where
  "generate_authentication_options L us b =
    (let email = body_email b in
     if \<not> truthy email then (sendError 400 ''Email requerido'', us)
     else
       case (case us email of None \<Rightarrow> None
             | Some u \<Rightarrow> if length (devices u) = 0 then None else Some u) of
         None \<Rightarrow> (sendError 404 ''Usuario no registrado'', us)
       | Some u \<Rightarrow>
           (case generateAuthenticationOptions L
                   \<lparr>auth_timeout = 60000, userVerification = ''required'',
                    allowCredentials = map (\<lambda>dev. (credentialID dev, [])) (devices u),
                    auth_rpID = ''axltest.lat''\<rparr> of
              Throws msg \<Rightarrow> (sendError 500 (''Error al generar desaf'' @ i_acute @ ''o''), us)
            | Returns opts \<Rightarrow>
                (res_json (Json_options opts),
                 us(email \<mapsto> u\<lparr>currentChallenge := Some (challenge opts)\<rparr>))))"

text \<open>
  The second server of \<^verbatim>\<open>src/unnamed/part_004\<close>: no test of the email, and two tests with
  two messages.
\<close>

definition generate_authentication_options_part_004 :: "lib \<Rightarrow> users \<Rightarrow> body \<Rightarrow> reply \<times> users" where
  "generate_authentication_options_part_004 L us b =
    (let email = body_email b in
     case us email of
       None \<Rightarrow> (\<lparr>status = 404, json = Json_error ''Usuario no registrado''\<rparr>, us)
     | Some u \<Rightarrow>
         if length (devices u) = 0
         then (\<lparr>status = 404,
                json = Json_error ''Usuario no tiene dispositivos registrados''\<rparr>, us)
         else
           (case generateAuthenticationOptions L
                   \<lparr>auth_timeout = 60000, userVerification = ''required'',
                    allowCredentials =
                      map (\<lambda>dev. (credentialID dev, [''internal''])) (devices u),
                    auth_rpID = ''axltest.dev''\<rparr> of
              Throws msg \<Rightarrow>
                (\<lparr>status = 500,
                  json = Json_error (''Error al generar desaf'' @ i_acute @ ''o'')\<rparr>, us)
            | Returns opts \<Rightarrow>
                (res_json (Json_options opts),
                 us(email \<mapsto> u\<lparr>currentChallenge := Some (challenge opts)\<rparr>))))"

subsection \<open>\<^verbatim>\<open>POST /verify-authentication\<close>\<close>

text \<open>
  \<^verbatim>\<open>device.counter = ...\<close> writes into the object that \<^verbatim>\<open>find\<close> returned, the first device
  of the list on which the callback of \<^verbatim>\<open>find\<close> holds.
\<close>

fun assign_counter :: "(device \<Rightarrow> bool) \<Rightarrow> nat \<Rightarrow> device list \<Rightarrow> device list" where
  "assign_counter P n [] = []"
| "assign_counter P n (d # ds) =
     (if P d then d\<lparr>counter := n\<rparr> # ds else d # assign_counter P n ds)"

text \<open>
  \<^verbatim>\<open>server.js\<close> and \<^verbatim>\<open>part_002\<close>.  \<^verbatim>\<open>verification.authenticationInfo.newCounter\<close> throws when
  \<^verbatim>\<open>authenticationInfo\<close> is undefined, before anything is written; the \<^verbatim>\<open>catch\<close> answers 500.
\<close>

definition verify_authentication :: "site \<Rightarrow> lib \<Rightarrow> users \<Rightarrow> body \<Rightarrow> reply \<times> users" where
  "verify_authentication S L us b =
    (let email = body_email b in
     case (if truthy email then body_response b else None) of
       None \<Rightarrow> (sendError 400 ''Faltan datos'', us)
     | Some resp \<Rightarrow>
     (case us email of
       None \<Rightarrow> (sendError 404 ''Usuario no encontrado'', us)
     | Some u \<Rightarrow>
     (case (case currentChallenge u of None \<Rightarrow> None
            | Some c \<Rightarrow> if c = [] then None else Some c) of
       None \<Rightarrow> (sendError 400 (''No hay desaf'' @ i_acute @ ''o''), us)
     | Some expected \<Rightarrow>
     (case find_device (devices u) (response_id resp) of
       Throws msg \<Rightarrow>
         (sendError 500 (''Error al verificar autenticaci'' @ o_acute @ ''n''), us)
     | Returns None \<Rightarrow> (sendError 400 ''Dispositivo desconocido'', us)
     | Returns (Some dev) \<Rightarrow>
     (case verifyAuthenticationResponse L
             \<lparr>response = resp, expectedChallenge = expected,
              expectedOrigin = site_origin S, expectedRPID = site_rpID S,
              requireUserVerification = True,
              authenticator = \<lparr>credentialID = credentialID dev,
                credentialPublicKey = credentialPublicKey dev, counter = counter dev\<rparr>\<rparr> of
       Throws msg \<Rightarrow>
         (sendError 500 (''Error al verificar autenticaci'' @ o_acute @ ''n''), us)
     | Returns verification \<Rightarrow>
         if verified verification then
           (case info verification of
              None \<Rightarrow>
                (sendError 500 (''Error al verificar autenticaci'' @ o_acute @ ''n''), us)
            | Some authenticationInfo \<Rightarrow>
                (res_json (Json_verified_user email),
                 us(email \<mapsto> u\<lparr>devices :=
                      assign_counter
                        (\<lambda>d. Buffer_compare (credentialID d) (response_id resp) = Returns 0)
                        (newCounter authenticationInfo) (devices u),
                    currentChallenge := None\<rparr>)))
         else (sendError 400 (''Autenticaci'' @ o_acute @ ''n fallida''), us))))))"

text \<open>
  The second server of \<^verbatim>\<open>src/unnamed/part_004\<close>: the device is found by
  \<^verbatim>\<open>d.credentialID === response.id\<close>, text against the JSON value, and the verifier gets the
  id decoded by \<^verbatim>\<open>isoBase64URL.toBuffer\<close>.
\<close>

definition verify_authentication_part_004 :: "lib \<Rightarrow> users \<Rightarrow> body \<Rightarrow> reply \<times> users" where
  "verify_authentication_part_004 L us b =
    (let email = body_email b in
     case (if truthy email then body_response b else None) of
       None \<Rightarrow> (sendError 400 ''Faltan datos'', us)
     | Some resp \<Rightarrow>
     (case us email of
       None \<Rightarrow> (sendError 404 ''Usuario no encontrado'', us)
     | Some u \<Rightarrow>
     (case (case currentChallenge u of None \<Rightarrow> None
            | Some c \<Rightarrow> if c = [] then None else Some c) of
       None \<Rightarrow> (sendError 400 (''No hay desaf'' @ i_acute @ ''o''), us)
     | Some expected \<Rightarrow>
     (case find (\<lambda>d. JStr (credentialID d) = response_id resp) (devices u) of
       None \<Rightarrow> (sendError 400 ''Dispositivo desconocido'', us)
     | Some dev \<Rightarrow>
     (case isoBase64URL_toBuffer L (credentialID dev) of
       Throws msg \<Rightarrow>
         (sendError 500 (''Error al verificar autenticaci'' @ o_acute @ ''n''), us)
     | Returns cid \<Rightarrow>
     (case verifyAuthenticationResponse L
             \<lparr>response = resp, expectedChallenge = expected,
              expectedOrigin = ''https://axltest.dev'', expectedRPID = ''axltest.dev'',
              requireUserVerification = True,
              authenticator = \<lparr>credentialID = cid,
                credentialPublicKey = credentialPublicKey dev, counter = counter dev\<rparr>\<rparr> of
       Throws msg \<Rightarrow>
         (sendError 500 (''Error al verificar autenticaci'' @ o_acute @ ''n''), us)
     | Returns verification \<Rightarrow>
         if verified verification then
           (case info verification of
              None \<Rightarrow>
                (sendError 500 (''Error al verificar autenticaci'' @ o_acute @ ''n''), us)
            | Some authenticationInfo \<Rightarrow>
                (res_json (Json_verified_user email),
                 us(email \<mapsto> u\<lparr>devices :=
                      assign_counter (\<lambda>d. JStr (credentialID d) = response_id resp)
                        (newCounter authenticationInfo) (devices u),
                    currentChallenge := None\<rparr>)))
         else (sendError 400 (''Autenticaci'' @ o_acute @ ''n fallida''), us)))))))"

subsection \<open>\<^verbatim>\<open>GET /api/health\<close>\<close>

definition health :: "lib \<Rightarrow> users \<Rightarrow> reply \<times> users" where
  "health L us = (res_json (Json_health (toISOString_now L)), us)"

section \<open>The routes of a server\<close>

text \<open>
  The \<^verbatim>\<open>app.post\<close> and \<^verbatim>\<open>app.get\<close> registrations of a file, in the order of the file.
  \<open>None\<close>: no route of the file has this verb and path, and the request falls through
  to the framework.
\<close>

datatype verb = GET | POST

definition server_js_app ::
  "lib \<Rightarrow> verb \<Rightarrow> string \<Rightarrow> users \<Rightarrow> body \<Rightarrow> (reply \<times> users) option" where
  "server_js_app L m path us b =
    (if m = POST \<and> path = ''/verify-registration''
       then Some (verify_registration axltest_dev L us b)
     else if m = POST \<and> path = ''/generate-registration-options''
       then Some (generate_registration_options_server_js L us b)
     else if m = POST \<and> path = ''/verify-authentication''
       then Some (verify_authentication axltest_dev L us b)
     else if m = GET \<and> path = ''/api/health''
       then Some (health L us)
     else None)"

definition part_002_app ::
  "lib \<Rightarrow> verb \<Rightarrow> string \<Rightarrow> users \<Rightarrow> body \<Rightarrow> (reply \<times> users) option" where
  "part_002_app L m path us b =
    (if m = POST \<and> path = ''/generate-registration-options''
       then Some (generate_registration_options L us b)
     else if m = POST \<and> path = ''/verify-registration''
       then Some (verify_registration axltest_lat L us b)
     else if m = POST \<and> path = ''/generate-authentication-options''
       then Some (generate_authentication_options L us b)
     else if m = POST \<and> path = ''/verify-authentication''
       then Some (verify_authentication axltest_lat L us b)
     else if m = GET \<and> path = ''/api/health''
       then Some (health L us)
     else None)"

section \<open>The password path of the frontend\<close>

text \<open>
  \<^verbatim>\<open>loginPassword\<close> of \<^verbatim>\<open>App.jsx\<close> reads the two inputs of the form, \<^verbatim>\<open>email\<close> (here
  \<open>mail\<close>) and \<^verbatim>\<open>password\<close>, and sets the status line; the result is the string given to
  \<^verbatim>\<open>setStatus\<close>.
\<close>

definition loginPassword :: "string \<Rightarrow> string \<Rightarrow> string" where
  "loginPassword mail password =
    (if password = ''123456''
     then check_mark @ '' Bienvenido (con contrase'' @ n_tilde @ ''a), '' @ mail @ ''!''
     else cross_mark @ '' Contrase'' @ n_tilde @ ''a incorrecta'')"

section \<open>Sample inputs\<close>

definition alice :: jsval where
  "alice = JStr ''a@example.com''"

definition bob :: jsval where
  "bob = JStr ''b@example.com''"

text \<open>Alice has begun a registration and has not finished it: no device yet.\<close>

definition alice_began :: users where
  "alice_began =
     [alice \<mapsto> \<lparr>user_id = ''u1'', email = alice, devices = [],
                 currentChallenge = Some ''c0''\<rparr>]"

definition ask :: "jsval \<Rightarrow> body" where
  "ask e = \<lparr>body_email = e, body_response = None\<rparr>"

text \<open>
  A submission for the email \<open>e\<close>: a response with the id \<open>rid\<close>, computed over the
  challenge \<open>c\<close> and reporting the counter \<open>n\<close> (for the sample libraries below, the client
  data is the challenge and the length of the authenticator data is the counter).
\<close>

definition submit :: "jsval \<Rightarrow> string \<Rightarrow> string \<Rightarrow> nat \<Rightarrow> body" where
  "submit e rid c n =
     \<lparr>body_email = e,
      body_response = Some \<lparr>response_id = JStr rid, clientDataJSON = c,
        authenticatorData = replicate n (CHR ''a'')\<rparr>\<rparr>"

text \<open>
  A library for the sample runs.  It issues the challenge \<open>c\<close>.  Its verifiers throw on a
  response that was not computed over the expected challenge; the authentication verifier
  also throws on a counter that is not above the stored one, unless both are 0.  A verified
  registration reports the credential of the response with its counter, a verified
  authentication the counter of the response.  The base64url helpers return their argument.
\<close>

definition sample_lib :: "string \<Rightarrow> lib" where
  "sample_lib c =
     \<lparr>uuidv4 = ''u2'', toISOString_now = ''2025-01-01T00:00:00.000Z'',
      generateRegistrationOptions = (\<lambda>a. Returns \<lparr>challenge = c, options_rest = []\<rparr>),
      generateAuthenticationOptions = (\<lambda>a. Returns \<lparr>challenge = c, options_rest = []\<rparr>),
      verifyRegistrationResponse =
        (\<lambda>a. if clientDataJSON (response a) = expectedChallenge a
             then Returns \<lparr>verified = True,
                    info = Some \<lparr>credentialID =
                        (case response_id (response a) of JStr s \<Rightarrow> s | _ \<Rightarrow> []),
                      credentialPublicKey = ''pk'',
                      counter = length (authenticatorData (response a))\<rparr>\<rparr>
             else Throws ''Unexpected registration response challenge''),
      verifyAuthenticationResponse =
        (\<lambda>a. if clientDataJSON (response a) \<noteq> expectedChallenge a
             then Throws ''Unexpected authentication response challenge''
             else if (0 < length (authenticatorData (response a))
                      \<or> 0 < counter (authenticator a))
                     \<and> length (authenticatorData (response a)) \<le> counter (authenticator a)
             then Throws ''Response counter value was lower than expected''
             else Returns \<lparr>verified = True,
                    info = Some \<lparr>newCounter = length (authenticatorData (response a))\<rparr>\<rparr>),
      isoBase64URL_fromBuffer = Returns,
      isoBase64URL_toBuffer = Returns\<rparr>"


text \<open>
  States of the second server of \<^verbatim>\<open>part_004\<close>, each the user table a run of its handlers
  leaves.  Alice registers the device \<^verbatim>\<open>X\<close>, whose counter is \<open>n\<close>, over the challenge
  \<^verbatim>\<open>c1\<close>; then she asks for authentication options and gets the challenge \<^verbatim>\<open>c2\<close>.
\<close>

definition alice_enrolled :: "nat \<Rightarrow> users" where
  "alice_enrolled n =
     snd (verify_registration_part_004 (sample_lib ''c1'')
            (snd (generate_registration_options_part_004 (sample_lib ''c1'') Map.empty
                    (ask alice)))
            (submit alice ''X'' ''c1'' n))"

definition alice_asked :: "nat \<Rightarrow> users" where
  "alice_asked n =
     snd (generate_authentication_options_part_004 (sample_lib ''c2'') (alice_enrolled n)
            (ask alice))"

section \<open>Basic facts\<close>

lemma status_sendError [simp]: "status (sendError n m) = n"
  by (simp add: sendError_def)

lemma status_res_json [simp]: "status (res_json p) = 200"
  by (simp add: res_json_def)

lemma sendError_eq [simp]: "(sendError n m = sendError n' m') = (n = n' \<and> m = m')"
  by (simp add: sendError_def)

lemma res_json_eq [simp]: "(res_json p = res_json q) = (p = q)"
  by (simp add: res_json_def)

lemma alice_neq_bob [simp]: "alice \<noteq> bob" "bob \<noteq> alice"
  by (simp_all add: alice_def bob_def)

lemma truthy_alice [simp]: "truthy alice" "typeof alice = ''string''"
  by (simp_all add: alice_def)

section \<open>The verify handlers of \<^verbatim>\<open>server.js\<close> and \<^verbatim>\<open>part_002\<close>\<close>

text \<open>
  Because of the two calls that raise, these handlers store nothing and never answer
  success: \<^verbatim>\<open>/verify-registration\<close> answers 500 after the verifier has verified the
  response, and \<^verbatim>\<open>/verify-authentication\<close> answers 500 as soon as the user has a device
  (and \<^verbatim>\<open>Dispositivo desconocido\<close> when it has none).
\<close>

lemma find_device_cases:
  "find_device ds rid = (if ds = [] then Returns None
     else Throws ''The buf2 argument must be an instance of Buffer or Uint8Array'')"
  by (cases ds) (simp_all add: Buffer_compare_def)

lemma verify_registration_stores_nothing:
  "snd (verify_registration S L us b) = us \<and> status (fst (verify_registration S L us b)) \<noteq> 200"
  by (simp add: verify_registration_def Let_def toBuffer_def
      split: option.splits outcome.splits)

lemma verify_authentication_stores_nothing:
  "snd (verify_authentication S L us b) = us
   \<and> status (fst (verify_authentication S L us b)) \<noteq> 200"
  by (simp add: verify_authentication_def Let_def find_device_cases
      split: option.splits outcome.splits)

lemma verify_registration_replies:
  "fst (verify_registration S L us b)
     \<in> {sendError 400 ''Faltan datos'', sendError 404 ''Usuario no encontrado'',
        sendError 400 (''No hay desaf'' @ i_acute @ ''o''),
        sendError 500 ''Error al verificar registro'',
        sendError 400 (''Verificaci'' @ o_acute @ ''n fallida'')}"
  by (simp add: verify_registration_def Let_def toBuffer_def split: option.splits outcome.splits)

lemma verify_authentication_replies:
  "fst (verify_authentication S L us b)
     \<in> {sendError 400 ''Faltan datos'', sendError 404 ''Usuario no encontrado'',
        sendError 400 (''No hay desaf'' @ i_acute @ ''o''),
        sendError 400 ''Dispositivo desconocido'',
        sendError 500 (''Error al verificar autenticaci'' @ o_acute @ ''n'')}"
  by (simp add: verify_authentication_def Let_def find_device_cases
      split: option.splits outcome.splits)

section \<open>The verify handlers of the second server of \<^verbatim>\<open>part_004\<close>\<close>

lemma verify_registration_part_004_failure:
  "status (fst (verify_registration_part_004 L us b)) \<noteq> 200 \<Longrightarrow>
   snd (verify_registration_part_004 L us b) = us"
  by (auto simp add: verify_registration_part_004_def Let_def
      split: option.splits outcome.splits if_splits)

lemma verify_registration_part_004_success:
  assumes "status (fst (verify_registration_part_004 L us b)) = 200"
  shows "\<exists>u resp c v d cid. us (body_email b) = Some u \<and> truthy (body_email b)
           \<and> body_response b = Some resp
           \<and> currentChallenge u = Some c \<and> c \<noteq> []
           \<and> verifyRegistrationResponse L
                \<lparr>response = resp, expectedChallenge = c,
                 expectedOrigin = ''https://axltest.dev'', expectedRPID = ''axltest.dev'',
                 requireUserVerification = True\<rparr> = Returns v
           \<and> verified v \<and> info v = Some d
           \<and> isoBase64URL_fromBuffer L (credentialID d) = Returns cid
           \<and> verify_registration_part_004 L us b =
               (res_json Json_verified,
                us(body_email b \<mapsto> u\<lparr>devices := devices u @
                     [\<lparr>credentialID = cid,
                       credentialPublicKey = credentialPublicKey d, counter = counter d\<rparr>],
                   currentChallenge := None\<rparr>))"
  using assms
  by (auto simp add: verify_registration_part_004_def Let_def
      split: option.splits outcome.splits if_splits)

lemma verify_registration_part_004_accepts:
  assumes "us (body_email b) = Some u" and "truthy (body_email b)"
    and "body_response b = Some resp" and "currentChallenge u = Some c" and "c \<noteq> []"
    and "verifyRegistrationResponse L
                \<lparr>response = resp, expectedChallenge = c,
                 expectedOrigin = ''https://axltest.dev'', expectedRPID = ''axltest.dev'',
                 requireUserVerification = True\<rparr> = Returns v"
    and "verified v" and "info v = Some d"
    and "isoBase64URL_fromBuffer L (credentialID d) = Returns cid"
  shows "verify_registration_part_004 L us b =
               (res_json Json_verified,
                us(body_email b \<mapsto> u\<lparr>devices := devices u @
                     [\<lparr>credentialID = cid,
                       credentialPublicKey = credentialPublicKey d, counter = counter d\<rparr>],
                   currentChallenge := None\<rparr>))"
  using assms by (simp add: verify_registration_part_004_def Let_def)

lemma verify_registration_part_004_no_challenge:
  "us (body_email b) = Some u \<Longrightarrow> currentChallenge u = None \<Longrightarrow> truthy (body_email b) \<Longrightarrow>
   body_response b \<noteq> None \<Longrightarrow>
   verify_registration_part_004 L us b = (sendError 400 (''No hay desaf'' @ i_acute @ ''o''), us)"
  by (auto simp add: verify_registration_part_004_def Let_def split: option.splits)

lemma verify_registration_part_004_replies:
  "fst (verify_registration_part_004 L us b)
     \<in> {sendError 400 ''Faltan datos'', sendError 404 ''Usuario no encontrado'',
        sendError 400 (''No hay desaf'' @ i_acute @ ''o''),
        sendError 500 ''Error al verificar registro'',
        sendError 400 (''Verificaci'' @ o_acute @ ''n fallida''),
        res_json Json_verified}"
  by (simp add: verify_registration_part_004_def Let_def split: option.splits outcome.splits)

lemma verify_authentication_part_004_failure:
  "status (fst (verify_authentication_part_004 L us b)) \<noteq> 200 \<Longrightarrow>
   snd (verify_authentication_part_004 L us b) = us"
  by (auto simp add: verify_authentication_part_004_def Let_def
      split: option.splits outcome.splits if_splits)

lemma verify_authentication_part_004_success:
  assumes "status (fst (verify_authentication_part_004 L us b)) = 200"
  shows "\<exists>u resp c dev cid v i. us (body_email b) = Some u \<and> truthy (body_email b)
           \<and> body_response b = Some resp
           \<and> currentChallenge u = Some c \<and> c \<noteq> []
           \<and> find (\<lambda>d. JStr (credentialID d) = response_id resp) (devices u) = Some dev
           \<and> isoBase64URL_toBuffer L (credentialID dev) = Returns cid
           \<and> verifyAuthenticationResponse L
                \<lparr>response = resp, expectedChallenge = c,
                 expectedOrigin = ''https://axltest.dev'', expectedRPID = ''axltest.dev'',
                 requireUserVerification = True,
                 authenticator = \<lparr>credentialID = cid,
                   credentialPublicKey = credentialPublicKey dev, counter = counter dev\<rparr>\<rparr>
               = Returns v
           \<and> verified v \<and> info v = Some i
           \<and> verify_authentication_part_004 L us b =
               (res_json (Json_verified_user (body_email b)),
                us(body_email b \<mapsto> u\<lparr>devices :=
                     assign_counter (\<lambda>d. JStr (credentialID d) = response_id resp)
                       (newCounter i) (devices u),
                   currentChallenge := None\<rparr>))"
  using assms
  by (auto simp add: verify_authentication_part_004_def Let_def
      split: option.splits outcome.splits if_splits)

lemma verify_authentication_part_004_accepts:
  assumes "us (body_email b) = Some u" and "truthy (body_email b)"
    and "body_response b = Some resp" and "currentChallenge u = Some c" and "c \<noteq> []"
    and "find (\<lambda>d. JStr (credentialID d) = response_id resp) (devices u) = Some dev"
    and "isoBase64URL_toBuffer L (credentialID dev) = Returns cid"
    and "verifyAuthenticationResponse L
                \<lparr>response = resp, expectedChallenge = c,
                 expectedOrigin = ''https://axltest.dev'', expectedRPID = ''axltest.dev'',
                 requireUserVerification = True,
                 authenticator = \<lparr>credentialID = cid,
                   credentialPublicKey = credentialPublicKey dev, counter = counter dev\<rparr>\<rparr>
               = Returns v"
    and "verified v" and "info v = Some i"
  shows "verify_authentication_part_004 L us b =
               (res_json (Json_verified_user (body_email b)),
                us(body_email b \<mapsto> u\<lparr>devices :=
                     assign_counter (\<lambda>d. JStr (credentialID d) = response_id resp)
                       (newCounter i) (devices u),
                   currentChallenge := None\<rparr>))"
  using assms by (simp add: verify_authentication_part_004_def Let_def)

lemma verify_authentication_part_004_no_challenge:
  "us (body_email b) = Some u \<Longrightarrow> currentChallenge u = None \<Longrightarrow> truthy (body_email b) \<Longrightarrow>
   body_response b \<noteq> None \<Longrightarrow>
   verify_authentication_part_004 L us b
     = (sendError 400 (''No hay desaf'' @ i_acute @ ''o''), us)"
  by (auto simp add: verify_authentication_part_004_def Let_def split: option.splits)

lemma verify_authentication_part_004_replies:
  "fst (verify_authentication_part_004 L us b)
     \<in> {sendError 400 ''Faltan datos'', sendError 404 ''Usuario no encontrado'',
        sendError 400 (''No hay desaf'' @ i_acute @ ''o''),
        sendError 400 ''Dispositivo desconocido'',
        sendError 500 (''Error al verificar autenticaci'' @ o_acute @ ''n''),
        sendError 400 (''Autenticaci'' @ o_acute @ ''n fallida''),
        res_json (Json_verified_user (body_email b))}"
  by (simp add: verify_authentication_part_004_def Let_def split: option.splits outcome.splits)


lemma assign_counter_same:
  "find P ds = Some dev \<Longrightarrow> counter dev = n \<Longrightarrow> assign_counter P n ds = ds"
  by (induction ds) (auto split: if_splits)


lemma verify_registration_part_004_verified_iff:
  assumes u: "us (body_email b) = Some u" and e: "truthy (body_email b)"
    and r: "body_response b = Some resp" and c: "currentChallenge u = Some c"
  shows "(fst (verify_registration_part_004 L us b) = res_json Json_verified)
       = (c \<noteq> [] \<and> (\<exists>v d cid. verifyRegistrationResponse L
                \<lparr>response = resp, expectedChallenge = c,
                 expectedOrigin = ''https://axltest.dev'', expectedRPID = ''axltest.dev'',
                 requireUserVerification = True\<rparr> = Returns v
              \<and> verified v \<and> info v = Some d
              \<and> isoBase64URL_fromBuffer L (credentialID d) = Returns cid))"
proof
  assume "fst (verify_registration_part_004 L us b) = res_json Json_verified"
  then have "status (fst (verify_registration_part_004 L us b)) = 200"
    by simp
  from verify_registration_part_004_success [OF this] u r c
  show "c \<noteq> [] \<and> (\<exists>v d cid. verifyRegistrationResponse L
                \<lparr>response = resp, expectedChallenge = c,
                 expectedOrigin = ''https://axltest.dev'', expectedRPID = ''axltest.dev'',
                 requireUserVerification = True\<rparr> = Returns v
              \<and> verified v \<and> info v = Some d
              \<and> isoBase64URL_fromBuffer L (credentialID d) = Returns cid)"
    by auto
next
  assume "c \<noteq> [] \<and> (\<exists>v d cid. verifyRegistrationResponse L
                \<lparr>response = resp, expectedChallenge = c,
                 expectedOrigin = ''https://axltest.dev'', expectedRPID = ''axltest.dev'',
                 requireUserVerification = True\<rparr> = Returns v
              \<and> verified v \<and> info v = Some d
              \<and> isoBase64URL_fromBuffer L (credentialID d) = Returns cid)"
  then obtain v d cid where n: "c \<noteq> []" and call: "verifyRegistrationResponse L
                \<lparr>response = resp, expectedChallenge = c,
                 expectedOrigin = ''https://axltest.dev'', expectedRPID = ''axltest.dev'',
                 requireUserVerification = True\<rparr> = Returns v"
    and v: "verified v" "info v = Some d"
    and x: "isoBase64URL_fromBuffer L (credentialID d) = Returns cid"
    by blast
  from u e r c n call v x
  show "fst (verify_registration_part_004 L us b) = res_json Json_verified"
    by (simp add: verify_registration_part_004_def Let_def)
qed


section \<open>The handlers that issue a challenge\<close>


lemma generate_authentication_options_part_004_issued:
  assumes "fst (generate_authentication_options_part_004 L us b) = res_json (Json_options opts)"
  shows "\<exists>u. us (body_email b) = Some u \<and> devices u \<noteq> []
            \<and> snd (generate_authentication_options_part_004 L us b)
                = us(body_email b \<mapsto> u\<lparr>currentChallenge := Some (challenge opts)\<rparr>)"
  using assms
  by (auto simp add: generate_authentication_options_part_004_def Let_def res_json_def
      split: if_splits outcome.splits option.splits)


section \<open>The sample states\<close>

lemma alice_enrolled_eq:
  "alice_enrolled n =
     [alice \<mapsto> \<lparr>user_id = ''u2'', email = alice,
        devices = [\<lparr>credentialID = ''X'', credentialPublicKey = ''pk'', counter = n\<rparr>],
        currentChallenge = None\<rparr>]"
  by (simp add: alice_enrolled_def verify_registration_part_004_def
        generate_registration_options_part_004_def sample_lib_def ask_def submit_def Let_def)

lemma alice_asked_eq:
  "alice_asked n =
     [alice \<mapsto> \<lparr>user_id = ''u2'', email = alice,
        devices = [\<lparr>credentialID = ''X'', credentialPublicKey = ''pk'', counter = n\<rparr>],
        currentChallenge = Some ''c2''\<rparr>]"
  by (simp add: alice_asked_def alice_enrolled_eq generate_authentication_options_part_004_def
        sample_lib_def ask_def Let_def)

section \<open>The pending challenge\<close>

text \<open>
  C1 says that \<^verbatim>\<open>/verify-registration\<close> and \<^verbatim>\<open>/verify-authentication\<close> delete the pending
  challenge whether or not the verification succeeds, so that a second submission after a
  failed one is answered "no pending challenge".  The handlers delete it in the success
  branch only.  In \<^verbatim>\<open>server.js\<close>, Alice asks for registration options and submits a forged
  response: 500, the user table is as it was, and the same submission again is answered
  500 again, not "no pending challenge".  In \<^verbatim>\<open>part_002\<close>, \<^verbatim>\<open>/verify-authentication\<close> answers
  \<^verbatim>\<open>Dispositivo desconocido\<close> twice.  In the second server of \<^verbatim>\<open>part_004\<close>, Alice, who has
  registered a device and asked for authentication options, submits a forged assertion:
  500, the user table is as it was, and her next assertion over the same challenge is
  verified.
\<close>

theorem failed_attempt_keeps_challenge:
  "fst (verify_registration axltest_dev (sample_lib ''c1'')
          (snd (generate_registration_options_server_js (sample_lib ''c1'') Map.empty
                  (ask alice)))
          (submit alice ''X'' ''forged'' 0))
     = sendError 500 ''Error al verificar registro''
   \<and> snd (verify_registration axltest_dev (sample_lib ''c1'')
          (snd (generate_registration_options_server_js (sample_lib ''c1'') Map.empty
                  (ask alice)))
          (submit alice ''X'' ''forged'' 0))
     = snd (generate_registration_options_server_js (sample_lib ''c1'') Map.empty (ask alice))
   \<and> fst (verify_registration axltest_dev (sample_lib ''c1'')
          (snd (verify_registration axltest_dev (sample_lib ''c1'')
             (snd (generate_registration_options_server_js (sample_lib ''c1'') Map.empty
                     (ask alice)))
             (submit alice ''X'' ''forged'' 0)))
          (submit alice ''X'' ''forged'' 0))
     = sendError 500 ''Error al verificar registro''
   \<and> fst (verify_authentication axltest_lat (sample_lib ''c1'')
          (snd (generate_registration_options (sample_lib ''c1'') Map.empty (ask alice)))
          (submit alice ''X'' ''c1'' 0))
     = sendError 400 ''Dispositivo desconocido''
   \<and> fst (verify_authentication axltest_lat (sample_lib ''c1'')
          (snd (verify_authentication axltest_lat (sample_lib ''c1'')
             (snd (generate_registration_options (sample_lib ''c1'') Map.empty (ask alice)))
             (submit alice ''X'' ''c1'' 0)))
          (submit alice ''X'' ''c1'' 0))
     = sendError 400 ''Dispositivo desconocido''
   \<and> fst (verify_authentication_part_004 (sample_lib ''c2'') (alice_asked 5)
          (submit alice ''X'' ''forged'' 6))
     = sendError 500 (''Error al verificar autenticaci'' @ o_acute @ ''n'')
   \<and> snd (verify_authentication_part_004 (sample_lib ''c2'') (alice_asked 5)
          (submit alice ''X'' ''forged'' 6)) = alice_asked 5
   \<and> fst (verify_authentication_part_004 (sample_lib ''c2'')
          (snd (verify_authentication_part_004 (sample_lib ''c2'') (alice_asked 5)
             (submit alice ''X'' ''forged'' 6)))
          (submit alice ''X'' ''c2'' 6))
     = res_json (Json_verified_user alice)"
  by (simp add: verify_registration_def verify_authentication_def
        verify_authentication_part_004_def generate_registration_options_server_js_def
        generate_registration_options_def find_device_cases
        sample_lib_def alice_asked_eq ask_def submit_def Let_def)

text \<open>
  C1, as the handlers have it: the pending challenge is deleted only by a reply of
  success.  In every server a reply other than success leaves the user table unchanged,
  so the challenge is still pending and a later submission is handed to the verifier
  again.  In the second server of \<^verbatim>\<open>part_004\<close>, after a success the user has no pending
  challenge and any later submission for that email is answered 400
  \<^verbatim>\<open>No hay desaf\<close>\<open>\<dots>\<close>\<^verbatim>\<open>o\<close>.
\<close>

theorem challenge_deleted_on_success_only:
  "(status (fst (verify_registration S L us b)) \<noteq> 200 \<longrightarrow>
      snd (verify_registration S L us b) = us)
   \<and> (status (fst (verify_authentication S L us b)) \<noteq> 200 \<longrightarrow>
      snd (verify_authentication S L us b) = us)
   \<and> (status (fst (verify_registration_part_004 L us b)) = 200 \<longrightarrow>
      (\<exists>u. snd (verify_registration_part_004 L us b) (body_email b) = Some u
           \<and> currentChallenge u = None)
      \<and> (body_email b' = body_email b \<longrightarrow> body_response b' \<noteq> None \<longrightarrow>
           verify_registration_part_004 L' (snd (verify_registration_part_004 L us b)) b'
             = (sendError 400 (''No hay desaf'' @ i_acute @ ''o''),
                snd (verify_registration_part_004 L us b))))
   \<and> (status (fst (verify_registration_part_004 L us b)) \<noteq> 200 \<longrightarrow>
        snd (verify_registration_part_004 L us b) = us)
   \<and> (status (fst (verify_authentication_part_004 L us b)) = 200 \<longrightarrow>
      (\<exists>u. snd (verify_authentication_part_004 L us b) (body_email b) = Some u
           \<and> currentChallenge u = None)
      \<and> (body_email b' = body_email b \<longrightarrow> body_response b' \<noteq> None \<longrightarrow>
           verify_authentication_part_004 L' (snd (verify_authentication_part_004 L us b)) b'
             = (sendError 400 (''No hay desaf'' @ i_acute @ ''o''),
                snd (verify_authentication_part_004 L us b))))
   \<and> (status (fst (verify_authentication_part_004 L us b)) \<noteq> 200 \<longrightarrow>
        snd (verify_authentication_part_004 L us b) = us)"
proof (intro conjI impI)
  show "snd (verify_registration S L us b) = us"
    by (simp add: verify_registration_stores_nothing)
  show "snd (verify_authentication S L us b) = us"
    by (simp add: verify_authentication_stores_nothing)
next
  assume ok: "status (fst (verify_registration_part_004 L us b)) = 200"
  from verify_registration_part_004_success [OF ok] obtain u ds where
    e: "truthy (body_email b)" and
    res: "verify_registration_part_004 L us b =
      (res_json Json_verified,
       us(body_email b \<mapsto> u\<lparr>devices := ds, currentChallenge := None\<rparr>))"
    by auto
  from res show "\<exists>u. snd (verify_registration_part_004 L us b) (body_email b) = Some u
      \<and> currentChallenge u = None"
    by simp
  assume b': "body_email b' = body_email b" "body_response b' \<noteq> None"
  from res b' have st: "snd (verify_registration_part_004 L us b) (body_email b')
      = Some (u\<lparr>devices := ds, currentChallenge := None\<rparr>)"
    by simp
  have nc: "currentChallenge (u\<lparr>devices := ds, currentChallenge := None\<rparr>) = None"
    by simp
  from e b' have tr: "truthy (body_email b')"
    by simp
  from verify_registration_part_004_no_challenge
    [of "snd (verify_registration_part_004 L us b)" b' _ L', OF st nc tr b'(2)]
  show "verify_registration_part_004 L' (snd (verify_registration_part_004 L us b)) b'
      = (sendError 400 (''No hay desaf'' @ i_acute @ ''o''),
         snd (verify_registration_part_004 L us b))" .
next
  assume "status (fst (verify_registration_part_004 L us b)) \<noteq> 200"
  then show "snd (verify_registration_part_004 L us b) = us"
    by (rule verify_registration_part_004_failure)
next
  assume ok: "status (fst (verify_authentication_part_004 L us b)) = 200"
  from verify_authentication_part_004_success [OF ok] obtain u ds where
    e: "truthy (body_email b)" and
    res: "verify_authentication_part_004 L us b =
      (res_json (Json_verified_user (body_email b)),
       us(body_email b \<mapsto> u\<lparr>devices := ds, currentChallenge := None\<rparr>))"
    by auto
  from res show "\<exists>u. snd (verify_authentication_part_004 L us b) (body_email b) = Some u
      \<and> currentChallenge u = None"
    by simp
  assume b': "body_email b' = body_email b" "body_response b' \<noteq> None"
  from res b' have st: "snd (verify_authentication_part_004 L us b) (body_email b')
      = Some (u\<lparr>devices := ds, currentChallenge := None\<rparr>)"
    by simp
  have nc: "currentChallenge (u\<lparr>devices := ds, currentChallenge := None\<rparr>) = None"
    by simp
  from e b' have tr: "truthy (body_email b')"
    by simp
  from verify_authentication_part_004_no_challenge
    [of "snd (verify_authentication_part_004 L us b)" b' _ L', OF st nc tr b'(2)]
  show "verify_authentication_part_004 L' (snd (verify_authentication_part_004 L us b)) b'
      = (sendError 400 (''No hay desaf'' @ i_acute @ ''o''),
         snd (verify_authentication_part_004 L us b))" .
next
  assume "status (fst (verify_authentication_part_004 L us b)) \<noteq> 200"
  then show "snd (verify_authentication_part_004 L us b) = us"
    by (rule verify_authentication_part_004_failure)
qed

text \<open>
  The theorem above on runs of the second server of \<^verbatim>\<open>part_004\<close> (a registration that is
  verified and the same submission again; an authentication that is verified and a later
  one; a forged assertion) and on a forged registration in \<^verbatim>\<open>server.js\<close>.
\<close>

theorem challenge_deleted_on_success_only_witness:
  "status (fst (verify_registration_part_004 (sample_lib ''c1'')
      (snd (generate_registration_options_part_004 (sample_lib ''c1'') Map.empty (ask alice)))
      (submit alice ''X'' ''c1'' 5))) = 200
   \<and> fst (verify_registration_part_004 (sample_lib ''c1'') (alice_enrolled 5)
        (submit alice ''X'' ''c1'' 5))
      = sendError 400 (''No hay desaf'' @ i_acute @ ''o'')
   \<and> status (fst (verify_authentication_part_004 (sample_lib ''c2'') (alice_asked 5)
      (submit alice ''X'' ''c2'' 6))) = 200
   \<and> fst (verify_authentication_part_004 (sample_lib ''c2'')
        (snd (verify_authentication_part_004 (sample_lib ''c2'') (alice_asked 5)
           (submit alice ''X'' ''c2'' 6)))
        (submit alice ''X'' ''c2'' 7))
      = sendError 400 (''No hay desaf'' @ i_acute @ ''o'')
   \<and> status (fst (verify_authentication_part_004 (sample_lib ''c2'') (alice_asked 5)
      (submit alice ''X'' ''forged'' 6))) \<noteq> 200
   \<and> snd (verify_authentication_part_004 (sample_lib ''c2'') (alice_asked 5)
      (submit alice ''X'' ''forged'' 6)) = alice_asked 5
   \<and> status (fst (verify_registration axltest_dev (sample_lib ''c1'')
      (snd (generate_registration_options_server_js (sample_lib ''c1'') Map.empty (ask alice)))
      (submit alice ''X'' ''forged'' 0))) \<noteq> 200
   \<and> snd (verify_registration axltest_dev (sample_lib ''c1'')
      (snd (generate_registration_options_server_js (sample_lib ''c1'') Map.empty (ask alice)))
      (submit alice ''X'' ''forged'' 0))
     = snd (generate_registration_options_server_js (sample_lib ''c1'') Map.empty (ask alice))"
proof -
  let ?began = "snd (generate_registration_options_part_004 (sample_lib ''c1'') Map.empty
    (ask alice))"
  let ?began_js = "snd (generate_registration_options_server_js (sample_lib ''c1'') Map.empty
    (ask alice))"
  have reg: "status (fst (verify_registration_part_004 (sample_lib ''c1'') ?began
      (submit alice ''X'' ''c1'' 5))) = 200"
    by (simp add: verify_registration_part_004_def generate_registration_options_part_004_def
        sample_lib_def ask_def submit_def Let_def)
  have ok: "status (fst (verify_authentication_part_004 (sample_lib ''c2'') (alice_asked 5)
      (submit alice ''X'' ''c2'' 6))) = 200"
    by (simp add: verify_authentication_part_004_def sample_lib_def alice_asked_eq submit_def
        Let_def)
  have bad: "status (fst (verify_authentication_part_004 (sample_lib ''c2'') (alice_asked 5)
      (submit alice ''X'' ''forged'' 6))) \<noteq> 200"
    by (simp add: verify_authentication_part_004_def sample_lib_def alice_asked_eq submit_def
        Let_def)
  have js: "status (fst (verify_registration axltest_dev (sample_lib ''c1'') ?began_js
      (submit alice ''X'' ''forged'' 0))) \<noteq> 200"
    by (simp add: verify_registration_stores_nothing)
  have again: "body_email (submit alice ''X'' ''c2'' 7) = body_email (submit alice ''X'' ''c2'' 6)"
    "body_response (submit alice ''X'' ''c2'' 7) \<noteq> None"
    "body_email (submit alice ''X'' ''c1'' 5) = body_email (submit alice ''X'' ''c1'' 5)"
    "body_response (submit alice ''X'' ''c1'' 5) \<noteq> None"
    by (simp_all add: submit_def)
  note r = challenge_deleted_on_success_only
    [where L = "sample_lib ''c1''" and us = ?began
       and b = "submit alice ''X'' ''c1'' 5" and b' = "submit alice ''X'' ''c1'' 5"
       and L' = "sample_lib ''c1''"]
  note t = challenge_deleted_on_success_only
    [where L = "sample_lib ''c2''" and us = "alice_asked 5"
       and b = "submit alice ''X'' ''c2'' 6" and b' = "submit alice ''X'' ''c2'' 7"
       and L' = "sample_lib ''c2''"]
  note t' = challenge_deleted_on_success_only
    [where L = "sample_lib ''c2''" and us = "alice_asked 5"
       and b = "submit alice ''X'' ''forged'' 6"]
  note j = challenge_deleted_on_success_only
    [where S = axltest_dev and L = "sample_lib ''c1''" and us = ?began_js
       and b = "submit alice ''X'' ''forged'' 0"]
  from r reg again have "fst (verify_registration_part_004 (sample_lib ''c1'')
        (snd (verify_registration_part_004 (sample_lib ''c1'') ?began
           (submit alice ''X'' ''c1'' 5)))
        (submit alice ''X'' ''c1'' 5))
      = sendError 400 (''No hay desaf'' @ i_acute @ ''o'')"
    by simp
  then have r': "fst (verify_registration_part_004 (sample_lib ''c1'') (alice_enrolled 5)
        (submit alice ''X'' ''c1'' 5))
      = sendError 400 (''No hay desaf'' @ i_acute @ ''o'')"
    by (simp add: alice_enrolled_def)
  from t ok again have a: "fst (verify_authentication_part_004 (sample_lib ''c2'')
        (snd (verify_authentication_part_004 (sample_lib ''c2'') (alice_asked 5)
           (submit alice ''X'' ''c2'' 6)))
        (submit alice ''X'' ''c2'' 7))
      = sendError 400 (''No hay desaf'' @ i_acute @ ''o'')"
    by simp
  from t' bad have k: "snd (verify_authentication_part_004 (sample_lib ''c2'')
      (alice_asked 5) (submit alice ''X'' ''forged'' 6)) = alice_asked 5"
    by blast
  from j js have k': "snd (verify_registration axltest_dev (sample_lib ''c1'') ?began_js
      (submit alice ''X'' ''forged'' 0)) = ?began_js"
    by blast
  from reg r' ok a bad k js k' show ?thesis
    by (intro conjI)
qed

section \<open>The signature counter\<close>







section \<open>\<^verbatim>\<open>/generate-registration-options\<close> and the stored credentials\<close>

text \<open>
  In \<^verbatim>\<open>part_002\<close> the handler leaves the credentials of every identity as they were: a
  known user only gets the new challenge, an unknown one is created without devices.
\<close>

lemma generate_registration_options_keeps_credentials:
  "credentials_of (snd (generate_registration_options L us b)) e = credentials_of us e"
  by (auto simp add: generate_registration_options_def credentials_of_def Let_def
      split: outcome.splits option.splits)

text \<open>
  C3 says that \<^verbatim>\<open>/generate-registration-options\<close> does not change the stored credentials.
  The handler of the second server of \<^verbatim>\<open>src/unnamed/part_004\<close> replaces the user object by
  a new one with \<^verbatim>\<open>devices: []\<close>: Alice, who has registered the device \<^verbatim>\<open>X\<close> there, asks
  for registration options again, gets them, and has no device left.  (\<^verbatim>\<open>server.js\<close> has
  the same \<^verbatim>\<open>users.set\<close>, but no user of it ever has a device to lose.)
\<close>

theorem registration_options_drop_devices:
  "map credentialID (credentials_of (alice_enrolled 5) alice) = [''X'']
   \<and> fst (generate_registration_options_part_004 (sample_lib ''c3'') (alice_enrolled 5)
          (ask alice))
       = res_json (Json_options \<lparr>challenge = ''c3'', options_rest = []\<rparr>)
   \<and> credentials_of (snd (generate_registration_options_part_004 (sample_lib ''c3'')
         (alice_enrolled 5) (ask alice))) alice = []"
  by (simp add: generate_registration_options_part_004_def credentials_of_def
        alice_enrolled_eq ask_def sample_lib_def Let_def)

section \<open>The kind of a challenge\<close>

text \<open>
  C4 says that a challenge issued for one kind of ceremony never validates a response of
  the other kind, and that the wrong kind is answered with a kind mismatch.  The user
  object has the one field \<^verbatim>\<open>currentChallenge\<close> and no kind.  In the second server of
  \<^verbatim>\<open>part_004\<close>, Alice, who has registered \<^verbatim>\<open>X\<close>, asks for authentication options and submits
  a registration response over that challenge to \<^verbatim>\<open>/verify-registration\<close>: the reply is
  verified and she has the second device \<^verbatim>\<open>Y\<close>.  In \<^verbatim>\<open>part_002\<close>, an assertion over a
  challenge from \<^verbatim>\<open>/generate-registration-options\<close> is answered \<^verbatim>\<open>Dispositivo desconocido\<close>,
  not a kind mismatch, and the challenge stays pending.
\<close>

theorem authentication_challenge_validates_registration:
  "fst (generate_authentication_options_part_004 (sample_lib ''c2'') (alice_enrolled 5)
          (ask alice))
     = res_json (Json_options \<lparr>challenge = ''c2'', options_rest = []\<rparr>)
   \<and> fst (verify_registration_part_004 (sample_lib ''c2'') (alice_asked 5)
          (submit alice ''Y'' ''c2'' 0))
     = res_json Json_verified
   \<and> map credentialID (credentials_of
        (snd (verify_registration_part_004 (sample_lib ''c2'') (alice_asked 5)
           (submit alice ''Y'' ''c2'' 0))) alice) = [''X'', ''Y'']
   \<and> verify_authentication axltest_lat (sample_lib ''c1'')
        (snd (generate_registration_options (sample_lib ''c1'') Map.empty (ask alice)))
        (submit alice ''X'' ''c1'' 0)
     = (sendError 400 ''Dispositivo desconocido'',
        snd (generate_registration_options (sample_lib ''c1'') Map.empty (ask alice)))"
  by (simp add: verify_registration_part_004_def generate_authentication_options_part_004_def
        verify_authentication_def generate_registration_options_def find_device_cases
        sample_lib_def alice_asked_eq alice_enrolled_eq ask_def submit_def Let_def
        credentials_of_def)

text \<open>
  C4, as the handlers have it.  In the second server of \<^verbatim>\<open>part_004\<close>, a challenge issued
  by \<^verbatim>\<open>/generate-authentication-options\<close> is what \<^verbatim>\<open>/verify-registration\<close> hands to the
  verifier as \<^verbatim>\<open>expectedChallenge\<close> for the next submission of that email, and the reply is
  verified exactly when the verifier verifies the response against it (and the id of the
  credential is encoded).  And no reply of a verify handler, in any server, is a kind
  mismatch: the replies are the ones listed.
\<close>

theorem pending_challenge_has_no_kind:
  assumes auth: "fst (generate_authentication_options_part_004 L2 us b)
                   = res_json (Json_options o2)"
    and e: "truthy (body_email b)"
    and b': "body_email b' = body_email b" "body_response b' = Some resp"
  shows "(fst (verify_registration_part_004 L
                 (snd (generate_authentication_options_part_004 L2 us b)) b')
            = res_json Json_verified)
         = (challenge o2 \<noteq> []
            \<and> (\<exists>v d cid. verifyRegistrationResponse L
                   \<lparr>response = resp, expectedChallenge = challenge o2,
                    expectedOrigin = ''https://axltest.dev'', expectedRPID = ''axltest.dev'',
                    requireUserVerification = True\<rparr> = Returns v
                 \<and> verified v \<and> info v = Some d
                 \<and> isoBase64URL_fromBuffer L (credentialID d) = Returns cid))
       \<and> fst (verify_registration_part_004 L us' b'')
           \<in> {sendError 400 ''Faltan datos'', sendError 404 ''Usuario no encontrado'',
              sendError 400 (''No hay desaf'' @ i_acute @ ''o''),
              sendError 500 ''Error al verificar registro'',
              sendError 400 (''Verificaci'' @ o_acute @ ''n fallida''),
              res_json Json_verified}
       \<and> fst (verify_authentication_part_004 L us' b'')
           \<in> {sendError 400 ''Faltan datos'', sendError 404 ''Usuario no encontrado'',
              sendError 400 (''No hay desaf'' @ i_acute @ ''o''),
              sendError 400 ''Dispositivo desconocido'',
              sendError 500 (''Error al verificar autenticaci'' @ o_acute @ ''n''),
              sendError 400 (''Autenticaci'' @ o_acute @ ''n fallida''),
              res_json (Json_verified_user (body_email b''))}
       \<and> fst (verify_registration S L us' b'')
           \<in> {sendError 400 ''Faltan datos'', sendError 404 ''Usuario no encontrado'',
              sendError 400 (''No hay desaf'' @ i_acute @ ''o''),
              sendError 500 ''Error al verificar registro'',
              sendError 400 (''Verificaci'' @ o_acute @ ''n fallida''),
              res_json Json_verified}
       \<and> fst (verify_authentication S L us' b'')
           \<in> {sendError 400 ''Faltan datos'', sendError 404 ''Usuario no encontrado'',
              sendError 400 (''No hay desaf'' @ i_acute @ ''o''),
              sendError 400 ''Dispositivo desconocido'',
              sendError 500 (''Error al verificar autenticaci'' @ o_acute @ ''n''),
              sendError 400 (''Autenticaci'' @ o_acute @ ''n fallida''),
              res_json (Json_verified_user (body_email b''))}"
proof -
  let ?us = "snd (generate_authentication_options_part_004 L2 us b)"
  from generate_authentication_options_part_004_issued [OF auth] obtain u where
    "?us = us(body_email b \<mapsto> u\<lparr>currentChallenge := Some (challenge o2)\<rparr>)"
    by blast
  with b' have u: "?us (body_email b') = Some (u\<lparr>currentChallenge := Some (challenge o2)\<rparr>)"
    by simp
  have c: "currentChallenge (u\<lparr>currentChallenge := Some (challenge o2)\<rparr>)
      = Some (challenge o2)"
    by simp
  from e b' have e': "truthy (body_email b')"
    by simp
  note iff = verify_registration_part_004_verified_iff [of ?us b' _ resp "challenge o2" L,
      OF u e' b'(2) c]
  have r1: "fst (verify_registration S L us' b'')
           \<in> {sendError 400 ''Faltan datos'', sendError 404 ''Usuario no encontrado'',
              sendError 400 (''No hay desaf'' @ i_acute @ ''o''),
              sendError 500 ''Error al verificar registro'',
              sendError 400 (''Verificaci'' @ o_acute @ ''n fallida''),
              res_json Json_verified}"
    using verify_registration_replies [of S L us' b''] by blast
  have r2: "fst (verify_authentication S L us' b'')
           \<in> {sendError 400 ''Faltan datos'', sendError 404 ''Usuario no encontrado'',
              sendError 400 (''No hay desaf'' @ i_acute @ ''o''),
              sendError 400 ''Dispositivo desconocido'',
              sendError 500 (''Error al verificar autenticaci'' @ o_acute @ ''n''),
              sendError 400 (''Autenticaci'' @ o_acute @ ''n fallida''),
              res_json (Json_verified_user (body_email b''))}"
    using verify_authentication_replies [of S L us' b''] by blast
  from iff verify_registration_part_004_replies [of L us' b'']
    verify_authentication_part_004_replies [of L us' b''] r1 r2
  show ?thesis by (intro conjI)
qed

text \<open>
  The theorem above at Alice's registered device and the challenge \<^verbatim>\<open>c2\<close> of her
  authentication options.
\<close>

theorem pending_challenge_has_no_kind_witness:
  "truthy (body_email (ask alice))
   \<and> fst (generate_authentication_options_part_004 (sample_lib ''c2'') (alice_enrolled 5)
          (ask alice))
     = res_json (Json_options \<lparr>challenge = ''c2'', options_rest = []\<rparr>)
   \<and> fst (verify_registration_part_004 (sample_lib ''c2'') (alice_asked 5)
          (submit alice ''Y'' ''c2'' 0))
     = res_json Json_verified"
proof -
  have e: "truthy (body_email (ask alice))"
    by (simp add: ask_def)
  have auth: "fst (generate_authentication_options_part_004 (sample_lib ''c2'')
      (alice_enrolled 5) (ask alice))
     = res_json (Json_options \<lparr>challenge = ''c2'', options_rest = []\<rparr>)"
    by (simp add: generate_authentication_options_part_004_def sample_lib_def
        alice_enrolled_eq ask_def Let_def)
  have b': "body_email (submit alice ''Y'' ''c2'' 0) = body_email (ask alice)"
    "body_response (submit alice ''Y'' ''c2'' 0)
       = Some \<lparr>response_id = JStr ''Y'', clientDataJSON = ''c2'', authenticatorData = []\<rparr>"
    by (simp_all add: submit_def ask_def)
  have call: "challenge \<lparr>challenge = ''c2'', options_rest = []\<rparr> \<noteq> []
     \<and> (\<exists>v d cid. verifyRegistrationResponse (sample_lib ''c2'')
           \<lparr>response = \<lparr>response_id = JStr ''Y'', clientDataJSON = ''c2'',
               authenticatorData = []\<rparr>,
            expectedChallenge = challenge \<lparr>challenge = ''c2'', options_rest = []\<rparr>,
            expectedOrigin = ''https://axltest.dev'', expectedRPID = ''axltest.dev'',
            requireUserVerification = True\<rparr> = Returns v
         \<and> verified v \<and> info v = Some d
         \<and> isoBase64URL_fromBuffer (sample_lib ''c2'') (credentialID d) = Returns cid)"
    by (simp add: sample_lib_def)
  from pending_challenge_has_no_kind [OF auth e b', of "sample_lib ''c2''"] call
  have "fst (verify_registration_part_004 (sample_lib ''c2'')
          (snd (generate_authentication_options_part_004 (sample_lib ''c2'')
             (alice_enrolled 5) (ask alice)))
          (submit alice ''Y'' ''c2'' 0)) = res_json Json_verified"
    by blast
  with e auth show ?thesis by (simp add: alice_asked_def)
qed

section \<open>Storing a credential\<close>




section \<open>Two registrations begun in a row\<close>




section \<open>\<^verbatim>\<open>/generate-authentication-options\<close> for an email with nothing to sign in with\<close>

text \<open>
  In \<^verbatim>\<open>part_002\<close> an unknown email and a known email without devices get the same reply,
  404 \<^verbatim>\<open>Usuario no registrado\<close>, and the user table is left as it was.
\<close>

lemma generate_authentication_options_same_reply:
  assumes "us (body_email b) = None" and "us' (body_email b) = Some u" and "devices u = []"
  shows "fst (generate_authentication_options L us b)
           = fst (generate_authentication_options L' us' b)
       \<and> snd (generate_authentication_options L us b) = us
       \<and> snd (generate_authentication_options L' us' b) = us'"
  using assms by (simp add: generate_authentication_options_def Let_def)

text \<open>
  C8 says that the two cases get the same error.  The second server of
  \<^verbatim>\<open>src/unnamed/part_004\<close> tests them one after the other and answers with two messages:
  for Alice unknown \<^verbatim>\<open>Usuario no registrado\<close>, for Alice known without a device
  \<^verbatim>\<open>Usuario no tiene dispositivos registrados\<close>, both with status 404.
\<close>

theorem part_004_tells_unknown_from_no_device:
  "fst (generate_authentication_options_part_004 L Map.empty (ask alice))
      = \<lparr>status = 404, json = Json_error ''Usuario no registrado''\<rparr>
   \<and> fst (generate_authentication_options_part_004 L alice_began (ask alice))
      = \<lparr>status = 404, json = Json_error ''Usuario no tiene dispositivos registrados''\<rparr>
   \<and> fst (generate_authentication_options_part_004 L Map.empty (ask alice))
      \<noteq> fst (generate_authentication_options_part_004 L alice_began (ask alice))"
  by (simp add: generate_authentication_options_part_004_def alice_began_def ask_def)

section \<open>The routes\<close>

text \<open>
  \<^verbatim>\<open>part_002\<close> registers the four ceremony routes, and the health route beside them.
\<close>

lemma part_002_routes:
  "(part_002_app L m path us b \<noteq> None) =
     ((m, path) \<in> {(POST, ''/generate-registration-options''), (POST, ''/verify-registration''),
        (POST, ''/generate-authentication-options''), (POST, ''/verify-authentication''),
        (GET, ''/api/health'')})"
  by (simp add: part_002_app_def)

text \<open>
  C9 says that each of the four operations is a route of the server.
  \<^verbatim>\<open>src/backend/server.js\<close> registers three of them and the health route:
  \<^verbatim>\<open>POST /generate-authentication-options\<close>, which the frontend calls and which the list
  \<^verbatim>\<open>apiRoutes\<close> of the same file names, has no handler there.
\<close>

theorem server_js_has_no_authentication_options_route:
  "server_js_app L POST ''/generate-authentication-options'' us b = None
   \<and> server_js_app L POST ''/generate-registration-options'' us b \<noteq> None
   \<and> server_js_app L POST ''/verify-registration'' us b \<noteq> None
   \<and> server_js_app L POST ''/verify-authentication'' us b \<noteq> None
   \<and> part_002_app L POST ''/generate-authentication-options'' us b \<noteq> None"
  by (simp add: server_js_app_def part_002_app_def)

section \<open>\<^verbatim>\<open>loginPassword\<close>\<close>

text \<open>
  C10.  Whatever the email and the entered password, \<^verbatim>\<open>loginPassword\<close> sets the welcome
  status exactly when the password is the string \<^verbatim>\<open>123456\<close> of the source, and the
  wrong-password status exactly when it is not; the email only appears in the welcome text,
  so \<^verbatim>\<open>123456\<close> is welcomed under every email.
\<close>

theorem loginPassword_fixed_password:
  "(loginPassword mail password =
      check_mark @ '' Bienvenido (con contrase'' @ n_tilde @ ''a), '' @ mail @ ''!'')
     = (password = ''123456'')
   \<and> (loginPassword mail password = cross_mark @ '' Contrase'' @ n_tilde @ ''a incorrecta'')
     = (password \<noteq> ''123456'')
   \<and> loginPassword mail' ''123456'' =
      check_mark @ '' Bienvenido (con contrase'' @ n_tilde @ ''a), '' @ mail' @ ''!''"
  by (simp add: loginPassword_def)

end
